theory Spec2Isabelle
  imports Main "HOL-Library.Sublist"
begin

section \<open>Promises and synchronous calls\<close>

text \<open>
  The extension is written against the Q promise library. A promise is modelled by the
  way it eventually settles: resolved with a value, rejected with a reason, or never
  settled at all (\<open>Pending\<close>: several deferreds of the source are left unsettled on some
  paths). Rejection reasons are JavaScript values; every reason the modelled code
  produces or inspects is a string (a message, a path, the word \<open>cancel\<close>, a thrown
  string), so a reason is a string. A \<open>TypeError\<close> object is represented by the constant
  \<open>TypeError\<close> below; its engine-specific message is not modelled.
\<close>

type_synonym reason = string

datatype 'a promise = Resolved 'a | Rejected reason | Pending

text \<open>
  A call that may throw synchronously, before it returns its value (or its promise).
\<close>

datatype 'a call = Returns 'a | Throws reason

definition TypeError :: reason where
  "TypeError = ''TypeError''"

text \<open>\<open>p.then(f)\<close> and \<open>p.catch(h)\<close> for handlers without effects.\<close>

fun then_p :: "'a promise \<Rightarrow> ('a \<Rightarrow> 'b promise) \<Rightarrow> 'b promise" where
  "then_p (Resolved v) f = f v"
| "then_p (Rejected r) f = Rejected r"
| "then_p Pending f = Pending"

fun catch_p :: "'a promise \<Rightarrow> (reason \<Rightarrow> 'a promise) \<Rightarrow> 'a promise" where
  "catch_p (Resolved v) h = Resolved v"
| "catch_p (Rejected r) h = h r"
| "catch_p Pending h = Pending"

text \<open>
  A \<open>Q.defer()\<close> object settles once: the first \<open>resolve\<close> or \<open>reject\<close> wins and
  later ones are ignored. \<open>None\<close> is the deferred nobody has settled yet; \<open>promiseOf\<close>
  is what \<open>deferred.promise\<close> eventually shows.
\<close>

definition settle :: "'a promise option \<Rightarrow> 'a promise \<Rightarrow> 'a promise option" where
  "settle d p = (case d of None \<Rightarrow> Some p | Some q \<Rightarrow> Some q)"

definition promiseOf :: "'a promise option \<Rightarrow> 'a promise" where
  "promiseOf d = (case d of None \<Rightarrow> Pending | Some p \<Rightarrow> p)"

section \<open>Configuration: inline templates and scopes\<close>

definition SCOPE_DEFAULT :: string where
  "SCOPE_DEFAULT = ''default''"

record InlineTemplate =
  scope :: string
  id' :: string
  template :: string
  after :: string

record Page =
  templates :: "InlineTemplate list"
  path' :: string
  file' :: string

record Scope =
  name :: string
  note' :: Page
  entry :: Page

record Root =
  scopes :: "Scope list"

text \<open>
  The workspace configuration object, as far as the modelled lookups read it:
  \<open>config.get("inline-templates")\<close>, which is \<open>undefined\<close> (\<open>None\<close>) when the setting
  is absent.
\<close>

record WorkspaceConfiguration =
  inline_templates :: "InlineTemplate list option"

text \<open>
  \<open>scopeId ? scopeId : SCOPE_DEFAULT\<close>: an absent and an empty scope id are both falsy.
\<close>

definition scopeOrDefault :: "string option \<Rightarrow> string" where
  "scopeOrDefault scopeId =
     (case scopeId of None \<Rightarrow> SCOPE_DEFAULT
      | Some s \<Rightarrow> if s = [] then SCOPE_DEFAULT else s)"

definition findScope :: "Scope list \<Rightarrow> string option \<Rightarrow> Scope option" where
  "findScope scs scopeId = find (\<lambda>val. prefix (scopeOrDefault scopeId) (name val)) scs"

definition findTemplate :: "InlineTemplate list \<Rightarrow> string \<Rightarrow> InlineTemplate option" where
  "findTemplate tpls templateId = find (\<lambda>val. prefix templateId (id' val)) tpls"

text \<open>
  \<open>getHeaderTemplate\<close>: \<open>templates.find(...).template\<close>. Reading \<open>.template\<close> of the
  \<open>undefined\<close> that \<open>find\<close> returns for a missing entry throws a TypeError, and so does
  \<open>templates.find\<close> when the setting itself is undefined.
\<close>

definition getHeaderTemplate :: "WorkspaceConfiguration \<Rightarrow> string option \<Rightarrow> string call" where
  "getHeaderTemplate config scopeId' =
     (let scopeId = scopeOrDefault scopeId' in
      case inline_templates config of
        None \<Rightarrow> Throws TypeError
      | Some tpls \<Rightarrow>
          (case find (\<lambda>e. scope e = scopeId @ ''.entry.header'') tpls of
             None \<Rightarrow> Throws TypeError
           | Some e \<Rightarrow> Returns (template e)))"

text \<open>
  \<open>getMemoTemplate\<close> resolves its deferred inside \<open>Q.fcall\<close> with whatever \<open>find\<close>
  returned, \<open>undefined\<close> (\<open>None\<close>) included. A TypeError thrown inside \<open>Q.fcall\<close> rejects
  the promise of \<open>Q.fcall\<close>, which nobody reads: the deferred is then never settled.
\<close>

definition getMemoTemplate ::
  "WorkspaceConfiguration \<Rightarrow> string option \<Rightarrow> InlineTemplate option promise" where
  "getMemoTemplate config scopeId' =
     (let scopeId = scopeOrDefault scopeId' in
      case inline_templates config of
        None \<Rightarrow> Pending
      | Some templatesArray \<Rightarrow>
          Resolved (find (\<lambda>tpl. id' tpl = scopeId @ ''.entry.memo'') templatesArray))"

text \<open>
  \<open>getJournalConfig\<close> throws before it builds any promise; its former body is commented
  out in the source.
\<close>

definition getJournalConfig :: "Root promise call" where
  "getJournalConfig = Throws ''Not yet implemented''"

text \<open>
  The handler that \<open>getFileLinkTemplate\<close> and \<open>getTaskTemplate\<close> share up to the template
  id. \<open>scope.entry\<close> on a scope that \<open>findScope\<close> did not find throws a TypeError, which
  rejects the chain; \<open>!tpl\<close> triggers the fallback to the default scope; the deferred is
  resolved with what the last \<open>findTemplate\<close> returned, \<open>undefined\<close> included.
\<close>

definition lookupInScopes ::
  "string \<Rightarrow> string option \<Rightarrow> Root \<Rightarrow> InlineTemplate option promise" where
  "lookupInScopes templateId scopeId val =
     (case findScope (scopes val) scopeId of
        None \<Rightarrow> Rejected TypeError
      | Some sc \<Rightarrow>
          (case findTemplate (templates (entry sc)) templateId of
             Some tpl \<Rightarrow> Resolved (Some tpl)
           | None \<Rightarrow>
               (case findScope (scopes val) (Some SCOPE_DEFAULT) of
                  None \<Rightarrow> Rejected TypeError
                | Some d \<Rightarrow> Resolved (findTemplate (templates (entry d)) templateId))))"

definition getFileLinkTemplate :: "string option \<Rightarrow> InlineTemplate option promise call" where
  "getFileLinkTemplate scopeId =
     (case getJournalConfig of
        Throws e \<Rightarrow> Throws e
      | Returns p \<Rightarrow>
          Returns (catch_p (then_p p (lookupInScopes ''file'' scopeId)) (\<lambda>err. Rejected err)))"

definition getTaskTemplate :: "string option \<Rightarrow> InlineTemplate option promise call" where
  "getTaskTemplate scopeId =
     (case getJournalConfig of
        Throws e \<Rightarrow> Throws e
      | Returns p \<Rightarrow>
          Returns (catch_p (then_p p (lookupInScopes ''task'' scopeId)) (\<lambda>err. Rejected err)))"

text \<open>
  A configuration that holds the default scope's header and memo entries and nothing for
  the scope \<open>work\<close>.
\<close>

definition defaultOnlyConfig :: WorkspaceConfiguration where
  "defaultOnlyConfig =
     \<lparr>inline_templates = Some
        [\<lparr>scope = ''default.entry.header'', id' = ''default.entry.header'',
          template = ''# {header}'', after = ''''\<rparr>,
         \<lparr>scope = ''default.entry.memo'', id' = ''default.entry.memo'',
          template = ''- MEMO: {content}'', after = ''''\<rparr>]\<rparr>"


section \<open>The journal: data, collaborators and effects\<close>

text \<open>
  \<open>String.prototype.replace(searchString, replaceValue)\<close> with two strings: the first
  occurrence of the search string is replaced, and the replacement is expanded by
  GetSubstitution, where \<open>$$\<close> stands for a dollar sign, \<open>$&\<close> for the matched text,
  \<open>$`\<close> for the text before the match and \<open>$'\<close> for the text after it. With a string
  pattern there are no captures, so \<open>$1\<close> and the like stay as they are.
\<close>

fun getSubstitution :: "string \<Rightarrow> string \<Rightarrow> string \<Rightarrow> string \<Rightarrow> string" where
  "getSubstitution matched preceding following [] = []"
| "getSubstitution matched preceding following [c] = [c]"
| "getSubstitution matched preceding following (c # d # cs) =
     (if c = CHR ''$'' then
        (if d = CHR ''$'' then CHR ''$'' # getSubstitution matched preceding following cs
         else if d = CHR ''&'' then matched @ getSubstitution matched preceding following cs
         else if d = CHR 0x60 then preceding @ getSubstitution matched preceding following cs
         else if d = CHR 0x27 then following @ getSubstitution matched preceding following cs
         else c # getSubstitution matched preceding following (d # cs))
      else c # getSubstitution matched preceding following (d # cs))"

text \<open>
  \<open>splitFirst pat s\<close> finds the first occurrence of \<open>pat\<close> in \<open>s\<close> (as \<open>indexOf\<close>
  does) and returns the text before it and the text after it.
\<close>

fun splitFirst :: "string \<Rightarrow> string \<Rightarrow> (string \<times> string) option" where
  "splitFirst pat [] = (if pat = [] then Some ([], []) else None)"
| "splitFirst pat (c # cs) =
     (if prefix pat (c # cs) then Some ([], drop (length pat) (c # cs))
      else map_option (\<lambda>(b, a). (c # b, a)) (splitFirst pat cs))"

definition js_replace :: "string \<Rightarrow> string \<Rightarrow> string \<Rightarrow> string" where
  "js_replace s pat rep =
     (case splitFirst pat s of
        None \<Rightarrow> s
      | Some (b, a) \<Rightarrow> b @ getSubstitution pat b a rep @ a)"

text \<open>
  Numbers and dates. An offset is a JavaScript number: a whole number of days, an
  infinity or \<open>NaN\<close> (numbers with a fraction are not represented). A date is its time
  value, in milliseconds since the epoch, or the invalid date. \<open>new Date()\<close> is the time
  \<open>now\<close> of the environment. \<open>date.setDate(date.getDate() + offset)\<close> moves the date by
  \<open>offset\<close> days, the calendar rolling over by itself, and keeps the time of day (local
  time is taken to be UTC: no zone offset, no daylight saving shift); the result is the
  invalid date when the offset is not finite and when the new time value lies beyond the
  8.64e15 milliseconds that a date can hold (TimeClip).
\<close>

datatype jsnumber = NaN | Num int | Infinity | MinusInfinity

datatype jsdate = InvalidDate | Time int

definition isNaN :: "jsnumber \<Rightarrow> bool" where
  "isNaN n = (case n of NaN \<Rightarrow> True | _ \<Rightarrow> False)"

definition msPerDay :: int where
  "msPerDay = 86400000"

definition maxTime :: int where
  "maxTime = 8640000000000000"

definition setDate :: "int \<Rightarrow> jsnumber \<Rightarrow> jsdate" where
  "setDate t n =
     (case n of
        Num k \<Rightarrow>
          (if \<bar>t + k * msPerDay\<bar> \<le> maxTime then Time (t + k * msPerDay) else InvalidDate)
      | _ \<Rightarrow> InvalidDate)"

record TextDocument =
  uri :: string

record TextEditor =
  document :: TextDocument

text \<open>
  Modelled from the spec: the class \<open>Input\<close> (with \<open>hasMemo\<close> and \<open>hasFlags\<close>) is not
  among the sources. The spec's data model gives it a raw text, an offset (an integer or
  null), a memo (a string or null) and an ordered set of flags; an Input carries a memo
  when it has memo text, and flags when its set of flags is not empty.
\<close>

record Input =
  rawText :: string
  offset :: "int option"
  memo :: "string option"
  flags :: "string list"

definition hasMemo :: "Input \<Rightarrow> bool" where
  "hasMemo input = (case memo input of None \<Rightarrow> False | Some m \<Rightarrow> m \<noteq> [])"

definition hasFlags :: "Input \<Rightarrow> bool" where
  "hasFlags input = (flags input \<noteq> [])"

text \<open>
  \<open>input.offset\<close> as the number \<open>getPageForDay\<close> receives: \<open>null\<close> behaves as 0 both
  in \<open>isNaN\<close> and in the addition to the day of the month.
\<close>

definition offsetNumber :: "Input \<Rightarrow> jsnumber" where
  "offsetNumber input = (case offset input of None \<Rightarrow> Num 0 | Some k \<Rightarrow> Num k)"

text \<open>
  Why a load failed is known to the environment only: the promise of
  \<open>loadTextDocument\<close> carries nothing but its rejection value, which the source names
  \<open>path\<close> and uses as one.
\<close>

datatype io_cause = NotFound | OtherIOFailure

datatype load_result = Loaded TextDocument | LoadFailed io_cause reason | LoadPending

definition loadPromise :: "load_result \<Rightarrow> TextDocument promise" where
  "loadPromise r =
     (case r of Loaded doc \<Rightarrow> Resolved doc | LoadFailed c v \<Rightarrow> Rejected v | LoadPending \<Rightarrow> Pending)"

text \<open>
  The collaborators of \<open>Journal\<close> that are not among the sources (\<open>Util\<close>, \<open>Parser\<close>,
  \<open>Writer\<close>, \<open>Reader\<close>, \<open>VSCode\<close>) are parameters: the environment says how each of
  their calls turns out. \<open>allRace\<close> says which rejection \<open>Q.all\<close> reports when both of
  its promises are rejected (the one that is rejected first in time).
\<close>

record env =
  now :: int
  util_getFileForDate :: "jsdate \<Rightarrow> string promise"
  util_formatDate :: "jsdate \<Rightarrow> string"
  util_denormalizeFilename :: "string \<Rightarrow> string"
  util_getFileInURI :: "string \<Rightarrow> string"
  util_normalizeFilename :: "string \<Rightarrow> string promise"
  util_getFilePathInDateFolder :: "jsdate \<Rightarrow> string \<Rightarrow> string promise"
  vsExt_loadTextDocument :: "string \<Rightarrow> load_result"
  vsExt_createSaveLoadTextDocument :: "string \<Rightarrow> string option \<Rightarrow> TextDocument promise"
  vsExt_showDocument :: "TextDocument \<Rightarrow> TextEditor promise"
  vsExt_getUserInput :: "string \<Rightarrow> string promise"
  vsExt_getUserInputComboSync :: "string \<Rightarrow> (string \<times> string) list \<Rightarrow> string promise"
  parser_tokenize :: "string \<Rightarrow> Input promise"
  writer_writeInputToFile :: "TextDocument \<Rightarrow> nat \<times> nat \<Rightarrow> Input \<Rightarrow> TextDocument promise"
  reader_getReferencedFiles :: "TextDocument \<Rightarrow> string list promise"
  reader_getFilesInNotesFolder :: "TextDocument \<Rightarrow> string list promise"
  reader_getPreviousJournalFiles :: "string list promise"
  allRace :: bool

text \<open>
  The trace: the calls by which the journal touches documents, files and the user
  interface, in the order in which it makes them. Lookups (paths, dates, templates,
  the two scans of the reader, the tokenizer) and \<open>console.log\<close> are not recorded.
  A document is a handle; what a write does to its text is the writer's business, so a
  page is unchanged by a run when the run's trace has no mutating event. The events of a
  synchronization, which is started and not waited for, are listed after the events of
  the chain that started it.
\<close>

datatype event =
    GetUserInput string
  | GetUserInputComboSync string "(string \<times> string) list"
  | LoadTextDocument string
  | CreateSaveLoadTextDocument string "string option"
  | WriteInputToFile TextDocument "nat \<times> nat" Input
  | InsertContent TextDocument "InlineTemplate option" "string \<times> string" "string \<times> string"
  | ShowDocument TextDocument
  | ShowErrorMessage string

fun mutates :: "event \<Rightarrow> bool" where
  "mutates (CreateSaveLoadTextDocument p c) = True"
| "mutates (WriteInputToFile d pos i) = True"
| "mutates (InsertContent d t l k) = True"
| "mutates e = False"

fun isErrorMessage :: "event \<Rightarrow> bool" where
  "isErrorMessage (ShowErrorMessage m) = True"
| "isErrorMessage e = False"

type_synonym 'a task = "'a promise \<times> event list"

text \<open>\<open>then\<close> and \<open>catch\<close> for handlers with effects: the handler's events follow.\<close>

definition thenT :: "'a task \<Rightarrow> ('a \<Rightarrow> 'b task) \<Rightarrow> 'b task" where
  "thenT x f =
     (case fst x of
        Resolved v \<Rightarrow> (fst (f v), snd x @ snd (f v))
      | Rejected r \<Rightarrow> (Rejected r, snd x)
      | Pending \<Rightarrow> (Pending, snd x))"

definition catchT :: "'a task \<Rightarrow> (reason \<Rightarrow> 'a task) \<Rightarrow> 'a task" where
  "catchT x h =
     (case fst x of
        Resolved v \<Rightarrow> (Resolved v, snd x)
      | Rejected r \<Rightarrow> (fst (h r), snd x @ snd (h r))
      | Pending \<Rightarrow> (Pending, snd x))"

text \<open>\<open>Q.all([p1, p2])\<close>.\<close>

definition q_all :: "bool \<Rightarrow> 'a promise \<Rightarrow> 'b promise \<Rightarrow> ('a \<times> 'b) promise" where
  "q_all firstWins p1 p2 =
     (case p1 of
        Resolved a \<Rightarrow>
          (case p2 of Resolved b \<Rightarrow> Resolved (a, b) | Rejected r \<Rightarrow> Rejected r | Pending \<Rightarrow> Pending)
      | Rejected r1 \<Rightarrow>
          (case p2 of Rejected r2 \<Rightarrow> Rejected (if firstWins then r1 else r2) | _ \<Rightarrow> Rejected r1)
      | Pending \<Rightarrow>
          (case p2 of Rejected r \<Rightarrow> Rejected r | _ \<Rightarrow> Pending))"

subsection \<open>addMemo\<close>

definition addMemo :: "env \<Rightarrow> Input \<Rightarrow> TextDocument \<Rightarrow> TextDocument task" where
  "addMemo env input doc =
     (if \<not> hasMemo input \<or> \<not> hasFlags input then (Resolved doc, [])
      else
        catchT
          (thenT (writer_writeInputToFile env doc (2, 0) input, [WriteInputToFile doc (2, 0) input])
             (\<lambda>doc. (Resolved doc, [])))
          (\<lambda>err. (Rejected ''Failed to add memo'', [])))"

subsection \<open>synchronizeReferencedFiles\<close>

text \<open>
  The body of \<open>foundFiles.forEach\<close>. The call \<open>this.config.getFileLinkTemplate()\<close> is
  made inside the loop: when it throws, the loop is left with that exception. When it
  returns a promise, the insertion waits for the promise in a \<open>then\<close> whose own promise
  is dropped, so the insertion happens once the template is there and nothing of what
  becomes of it reaches the loop. The result is the insertions made and the exception
  the loop was left with, if any.
\<close>

fun forEachFound ::
  "env \<Rightarrow> TextDocument \<Rightarrow> string list \<Rightarrow> string list \<Rightarrow> event list \<times> reason option" where
  "forEachFound env doc referencedFiles [] = ([], None)"
| "forEachFound env doc referencedFiles (f # foundFiles) =
     (if find (\<lambda>match. match = f) referencedFiles = None then
        (case getFileLinkTemplate None of
           Throws e \<Rightarrow> ([], Some e)
         | Returns p \<Rightarrow>
             (let inserted =
                (case p of
                   Resolved tplInfo \<Rightarrow>
                     [InsertContent doc tplInfo
                        (''{label}'', util_denormalizeFilename env f)
                        (''{link}'', ''./'' @ util_getFileInURI env (uri doc) @ ''/'' @ f)]
                 | _ \<Rightarrow> []);
                  r = forEachFound env doc referencedFiles foundFiles
              in (inserted @ fst r, snd r)))
      else forEachFound env doc referencedFiles foundFiles)"

text \<open>The chain up to, and without, the final \<open>catch\<close>.\<close>

definition synchronizeChain :: "env \<Rightarrow> TextDocument \<Rightarrow> unit task" where
  "synchronizeChain env doc =
     thenT
       (q_all (allRace env) (reader_getReferencedFiles env doc)
          (reader_getFilesInNotesFolder env doc), [])
       (\<lambda>results.
          (let referencedFiles = fst results; foundFiles = snd results;
               r = forEachFound env doc referencedFiles foundFiles
           in (case snd r of None \<Rightarrow> Resolved () | Some e \<Rightarrow> Rejected e, fst r)))"

definition synchronizeReferencedFiles :: "env \<Rightarrow> TextDocument \<Rightarrow> event list" where
  "synchronizeReferencedFiles env doc =
     snd (catchT (synchronizeChain env doc)
        (\<lambda>err. (Resolved (),
           [ShowErrorMessage (''Failed to synchronize page with notes folder. Reason: '' @ err)])))"

subsection \<open>getPageForDay\<close>

text \<open>
  The class \<open>Configuration\<close> defines no \<open>getPageTemplate\<close> and no
  \<open>getNotesPagesTemplate\<close> (its readers of the two template files are
  \<open>getJournalEntryTemplate\<close> and \<open>getNotesTemplate\<close>): on the configuration object both
  names are \<open>undefined\<close>, and calling them throws a TypeError.
\<close>

definition getPageTemplate :: "string promise call" where
  "getPageTemplate = Throws TypeError"

definition getNotesPagesTemplate :: "string promise call" where
  "getNotesPagesTemplate = Throws TypeError"

text \<open>
  The chain inside the create branch, on the promise of the page template. Its inner
  deferred is resolved when the template was read and the file was created, and is never
  settled otherwise (the inner chain has no \<open>catch\<close>).
\<close>

definition createPageChain ::
  "env \<Rightarrow> jsnumber \<Rightarrow> string \<Rightarrow> string promise \<Rightarrow> TextDocument task" where
  "createPageChain env n path p =
     (let date = setDate (now env) n;
          created =
            thenT
              (thenT (p, [])
                 (\<lambda>tpl. (Resolved (js_replace tpl ''{header}'' (util_formatDate env date)), [])))
              (\<lambda>content.
                 (vsExt_createSaveLoadTextDocument env path (Some content),
                  [CreateSaveLoadTextDocument path (Some content)]))
      in (case fst created of Resolved doc \<Rightarrow> Resolved doc | _ \<Rightarrow> Pending, snd created))"

text \<open>
  The handler of the first \<open>catch\<close>: the create branch. An exception thrown in the
  handler, as by the call \<open>this.config.getPageTemplate()\<close>, rejects the promise of the
  \<open>catch\<close>.
\<close>

definition createPage :: "env \<Rightarrow> jsnumber \<Rightarrow> string \<Rightarrow> TextDocument task" where
  "createPage env n path =
     (case getPageTemplate of
        Throws e \<Rightarrow> (Rejected e, [])
      | Returns p \<Rightarrow> createPageChain env n path p)"

text \<open>The chain from \<open>getFileForDate\<close> to the end of the first \<open>catch\<close>.\<close>

definition loadOrCreate :: "env \<Rightarrow> jsnumber \<Rightarrow> TextDocument task" where
  "loadOrCreate env n =
     (let date = setDate (now env) n in
      catchT
        (thenT (util_getFileForDate env date, [])
           (\<lambda>path. (loadPromise (vsExt_loadTextDocument env path), [LoadTextDocument path])))
        (\<lambda>path. createPage env n path))"

text \<open>
  \<open>getPageForDay\<close>. The guard rejects the deferred and goes on (there is no
  \<open>return\<close>); the synchronization is started and not waited for, its events are listed
  where it is started.
\<close>

definition getPageForDay :: "env \<Rightarrow> jsnumber \<Rightarrow> TextDocument task" where
  "getPageForDay env n =
     (let deferred =
            (if isNaN n then Some (Rejected ''Journal: Not a valid value for offset'') else None);
          chain = loadOrCreate env n
      in case fst chain of
           Resolved doc \<Rightarrow>
             (promiseOf (settle deferred (Resolved doc)),
              snd chain @ synchronizeReferencedFiles env doc)
         | Rejected r \<Rightarrow>
             (promiseOf (settle deferred (Rejected ''Failed to open file'')), snd chain)
         | Pending \<Rightarrow> (promiseOf deferred, snd chain))"

text \<open>The events of the synchronization that \<open>getPageForDay\<close> starts, if it starts one.\<close>

definition synchronizationStarted :: "env \<Rightarrow> jsnumber \<Rightarrow> event list" where
  "synchronizationStarted env n =
     (case fst (loadOrCreate env n) of
        Resolved doc \<Rightarrow> synchronizeReferencedFiles env doc
      | _ \<Rightarrow> [])"

subsection \<open>The interactive pipelines\<close>

text \<open>
  \<open>openDayByInput\<close>. The chain goes on with the memo and the editor as soon as the page
  is there; the synchronization that \<open>getPageForDay\<close> started runs beside it, and its
  events are listed after those of the chain.
\<close>

definition openDayByInput :: "env \<Rightarrow> TextEditor task" where
  "openDayByInput env =
     (let asked =
            thenT
              (vsExt_getUserInput env ''Enter day or memo (with flags) '',
               [GetUserInput ''Enter day or memo (with flags) ''])
              (\<lambda>v. (parser_tokenize env v, []));
          chain =
            thenT
              (thenT
                 (thenT asked
                    (\<lambda>input.
                       thenT
                         (fst (getPageForDay env (offsetNumber input)),
                          snd (loadOrCreate env (offsetNumber input)))
                         (\<lambda>doc. addMemo env input doc)))
                 (\<lambda>doc. (vsExt_showDocument env doc, [ShowDocument doc])))
              (\<lambda>editor. (Resolved editor, []));
          background =
            (case fst asked of
               Resolved input \<Rightarrow> synchronizationStarted env (offsetNumber input)
             | _ \<Rightarrow> [])
      in case fst chain of
           Resolved editor \<Rightarrow> (Resolved editor, snd chain @ background)
         | Rejected err \<Rightarrow>
             (if err \<noteq> ''cancel'' then
                (let msg = ''Failed to open page. Reason: '' @ [CHR 0x22] @ err @ [CHR 0x22]
                 in (Rejected msg, snd chain @ [ShowErrorMessage msg] @ background))
              else (Pending, snd chain @ background))
         | Pending \<Rightarrow> (Pending, snd chain @ background))"

text \<open>
  \<open>gatherSelection\<close> resolves with one pick item per previous journal file and has no
  handler for a failed listing: its deferred is then never settled.
\<close>

definition gatherSelection :: "env \<Rightarrow> (string \<times> string) list promise" where
  "gatherSelection env =
     (case reader_getPreviousJournalFiles env of
        Resolved files \<Rightarrow> Resolved (map (\<lambda>f. (f, ''This is a generic desc'')) files)
      | _ \<Rightarrow> Pending)"

definition openDayByInputOrSelection :: "env \<Rightarrow> TextDocument task" where
  "openDayByInputOrSelection env =
     (let chain =
        thenT
          (thenT
             (thenT (gatherSelection env, [])
                (\<lambda>items.
                   (vsExt_getUserInputComboSync env ''Enter day or memo (with flags)'' items,
                    [GetUserInputComboSync ''Enter day or memo (with flags)'' items])))
             (\<lambda>v. (parser_tokenize env v, [])))
          (\<lambda>input. getPageForDay env (offsetNumber input))
      in case fst chain of
           Resolved doc \<Rightarrow> (Resolved doc, snd chain)
         | Rejected err \<Rightarrow>
             (if err \<noteq> ''cancel'' then
                (Rejected ''Failed to translate input into action'',
                 snd chain @ [ShowErrorMessage ''Failed to translate input into action''])
              else (Pending, snd chain))
         | Pending \<Rightarrow> (Pending, snd chain))"

text \<open>
  The chain of \<open>createNote\<close>, on the promise of the notes template. The variable
  \<open>content\<close> starts as \<open>null\<close>, is set by the first handler and rewritten by the second;
  the first \<open>catch\<close> reads whatever it holds by then. \<open>getPageForDay(0)\<close> at the end is
  started and not waited for.
\<close>

definition createNoteChain :: "env \<Rightarrow> string promise \<Rightarrow> TextEditor task" where
  "createNoteChain env p =
     (let content1 = (case p of Resolved tplInfo \<Rightarrow> Some tplInfo | _ \<Rightarrow> None);
          asked =
            thenT (p, [])
              (\<lambda>tplInfo. (vsExt_getUserInput env ''Enter name for your notes'',
                 [GetUserInput ''Enter name for your notes'']));
          content =
            (case fst asked of
               Resolved input \<Rightarrow> map_option (\<lambda>c. js_replace c ''{content}'' input) content1
             | _ \<Rightarrow> content1);
          loaded =
            thenT
              (thenT
                 (thenT asked (\<lambda>input. (util_normalizeFilename env input, [])))
                 (\<lambda>filename.
                    (util_getFilePathInDateFolder env (Time (now env)) filename, [])))
              (\<lambda>path. (loadPromise (vsExt_loadTextDocument env path), [LoadTextDocument path]));
          chain =
            thenT
              (thenT
                 (catchT loaded
                    (\<lambda>filename.
                       if filename \<noteq> ''cancel'' then
                         (vsExt_createSaveLoadTextDocument env filename content,
                          [CreateSaveLoadTextDocument filename content])
                       else (Rejected ''cancel'', [])))
                 (\<lambda>doc. (vsExt_showDocument env doc, [ShowDocument doc])))
              (\<lambda>editor. (Resolved editor, snd (getPageForDay env (Num 0))))
      in case fst chain of
           Resolved editor \<Rightarrow> (Resolved editor, snd chain)
         | Rejected err \<Rightarrow>
             (if err \<noteq> ''cancel'' then
                (Rejected (''Failed to create a new note. Reason is ['' @ err @ '']''), snd chain)
              else (Pending, snd chain))
         | Pending \<Rightarrow> (Pending, snd chain))"

text \<open>
  \<open>createNote\<close> calls \<open>this.config.getNotesPagesTemplate()\<close> in its own body, before
  any promise exists: the exception of that call leaves \<open>createNote\<close> itself.
\<close>

definition createNote :: "env \<Rightarrow> TextEditor task call" where
  "createNote env =
     (case getNotesPagesTemplate of
        Throws e \<Rightarrow> Throws e
      | Returns p \<Rightarrow> Returns (createNoteChain env p))"

subsection \<open>Two runs of the synchronization\<close>

text \<open>
  What the reader finds depends on the state of the page and of its notes folder, and a
  mutating call changes that state. Both collaborators are absent from the sources, so
  the state is any type \<open>'c\<close>, \<open>envOf c\<close> is the environment as it answers in the state
  \<open>c\<close>, and \<open>perform e c\<close> is the state after the mutating event \<open>e\<close>.
  \<open>synchronizeOnce\<close> is the state a run leaves behind, \<open>editsOfRun\<close> the edits it makes.
\<close>

definition editsOfRun :: "('c \<Rightarrow> env) \<Rightarrow> TextDocument \<Rightarrow> 'c \<Rightarrow> event list" where
  "editsOfRun envOf doc c = filter mutates (synchronizeReferencedFiles (envOf c) doc)"

definition synchronizeOnce ::
  "('c \<Rightarrow> env) \<Rightarrow> (event \<Rightarrow> 'c \<Rightarrow> 'c) \<Rightarrow> TextDocument \<Rightarrow> 'c \<Rightarrow> 'c" where
  "synchronizeOnce envOf perform doc c = fold perform (editsOfRun envOf doc c) c"

section \<open>The tokenizer\<close>

text \<open>
  Modelled from the spec: \<open>Parser.tokenize\<close> is not among the sources. The spec: the
  raw text is split on the first run of whitespace that separates the date/offset token
  from the remainder; the remainder is split on the flag sigil into the memo text and an
  ordered set of flags; empty raw text yields an Input with offset 0 and no memo;
  tokenization never fails on its own, every semantic failure is the DateParser's. The
  DateParser is a component of its own and a parameter here: it turns the token into an
  offset or fails with a ParseError that carries the offending text.
\<close>

datatype ParseError = ParseError string

definition isSpace :: "char \<Rightarrow> bool" where
  "isSpace c = (c = CHR '' '' \<or> c = CHR 0x09 \<or> c = CHR 0x0A \<or> c = CHR 0x0D)"

definition trim :: "string \<Rightarrow> string" where
  "trim s = rev (dropWhile isSpace (rev (dropWhile isSpace s)))"

fun splitOn :: "char \<Rightarrow> string \<Rightarrow> string list" where
  "splitOn sep [] = [[]]"
| "splitOn sep (c # cs) =
     (if c = sep then [] # splitOn sep cs
      else (case splitOn sep cs of [] \<Rightarrow> [[c]] | x # xs \<Rightarrow> (c # x) # xs))"

definition tokenize :: "(string \<Rightarrow> ParseError + int) \<Rightarrow> char \<Rightarrow> string \<Rightarrow> ParseError + Input" where
  "tokenize parse sigil raw =
     (if raw = [] then Inr \<lparr>rawText = raw, offset = Some 0, memo = None, flags = []\<rparr>
      else
        (let token = takeWhile (\<lambda>c. \<not> isSpace c) raw;
             remainder = dropWhile isSpace (dropWhile (\<lambda>c. \<not> isSpace c) raw);
             parts = splitOn sigil remainder;
             memoText = (case parts of [] \<Rightarrow> [] | m # fs \<Rightarrow> trim m);
             flagList =
               (case parts of [] \<Rightarrow> []
                | m # fs \<Rightarrow> remdups (filter (\<lambda>f. f \<noteq> []) (map trim fs)))
         in case parse token of
              Inl err \<Rightarrow> Inl err
            | Inr k \<Rightarrow>
                Inr \<lparr>rawText = raw, offset = Some k,
                     memo = (if memoText = [] then None else Some memoText),
                     flags = flagList\<rparr>))"

section \<open>Example environments\<close>

text \<open>
  An environment in which the page of the day exists, its notes folder is empty and the
  user cancels every prompt; and variations of it.
\<close>

definition pagePath :: string where
  "pagePath = ''/journal/2026/11/02.md''"

definition page :: TextDocument where
  "page = \<lparr>uri = pagePath\<rparr>"

definition baseEnv :: env where
  "baseEnv =
     \<lparr>now = 1793610000000,
      util_getFileForDate = (\<lambda>d. Resolved pagePath),
      util_formatDate = (\<lambda>d. ''Monday, November 2, 2026''),
      util_denormalizeFilename = (\<lambda>f. f),
      util_getFileInURI = (\<lambda>p. ''02''),
      util_normalizeFilename = (\<lambda>f. Resolved f),
      util_getFilePathInDateFolder = (\<lambda>d f. Resolved (''/journal/2026/11/02/'' @ f @ ''.md'')),
      vsExt_loadTextDocument = (\<lambda>p. Loaded \<lparr>uri = p\<rparr>),
      vsExt_createSaveLoadTextDocument = (\<lambda>p c. Resolved \<lparr>uri = p\<rparr>),
      vsExt_showDocument = (\<lambda>d. Resolved \<lparr>document = d\<rparr>),
      vsExt_getUserInput = (\<lambda>p. Rejected ''cancel''),
      vsExt_getUserInputComboSync = (\<lambda>p items. Rejected ''cancel''),
      parser_tokenize =
        (\<lambda>v. Resolved \<lparr>rawText = v, offset = Some 0, memo = None, flags = []\<rparr>),
      writer_writeInputToFile = (\<lambda>d pos i. Resolved d),
      reader_getReferencedFiles = (\<lambda>d. Resolved []),
      reader_getFilesInNotesFolder = (\<lambda>d. Resolved []),
      reader_getPreviousJournalFiles = Resolved [],
      allRace = True\<rparr>"

text \<open>The page of the day is not there yet.\<close>

definition absentEnv :: env where
  "absentEnv = baseEnv\<lparr>vsExt_loadTextDocument := (\<lambda>p. LoadFailed NotFound p)\<rparr>"

text \<open>The page of the day is there and cannot be read.\<close>

definition unreadableEnv :: env where
  "unreadableEnv = baseEnv\<lparr>vsExt_loadTextDocument := (\<lambda>p. LoadFailed OtherIOFailure p)\<rparr>"

text \<open>The notes folder holds one file that the page does not mention.\<close>

definition oneNoteEnv :: env where
  "oneNoteEnv = baseEnv\<lparr>reader_getFilesInNotesFolder := (\<lambda>d. Resolved [''shopping.md''])\<rparr>"

text \<open>The notes folder cannot be listed.\<close>

definition noListingEnv :: env where
  "noListingEnv = baseEnv\<lparr>reader_getFilesInNotesFolder := (\<lambda>d. Rejected ''EACCES'')\<rparr>"

text \<open>An input with a memo and no flag, and one with a memo and the flag \<open>task\<close>.\<close>

definition memoOnly :: Input where
  "memoOnly = \<lparr>rawText = ''0 buy milk'', offset = Some 0, memo = Some ''buy milk'', flags = []\<rparr>"

definition taskInput :: Input where
  "taskInput =
     \<lparr>rawText = ''0 buy milk #task'', offset = Some 0, memo = Some ''buy milk'',
      flags = [''task'']\<rparr>"

section \<open>Unfolding the examples and the chains\<close>

lemmas example_defs =
  baseEnv_def absentEnv_def unreadableEnv_def oneNoteEnv_def noListingEnv_def
  pagePath_def page_def

lemmas run_defs =
  getPageForDay_def loadOrCreate_def createPage_def synchronizeReferencedFiles_def
  getPageTemplate_def synchronizeChain_def q_all_def thenT_def catchT_def loadPromise_def
  setDate_def msPerDay_def maxTime_def isNaN_def settle_def promiseOf_def Let_def

section \<open>Template lookup\<close>

lemma getFileLinkTemplate_throws: "getFileLinkTemplate scopeId = Throws ''Not yet implemented''"
  by (simp add: getFileLinkTemplate_def getJournalConfig_def)

lemma getTaskTemplate_throws: "getTaskTemplate scopeId = Throws ''Not yet implemented''"
  by (simp add: getTaskTemplate_def getJournalConfig_def)

text \<open>
  C4. The claim: every template lookup (header, memo, file link, task) falls back to the
  default scope's template when the entry of the requested scope is absent. The code at
  the configuration above, asked for the scope \<open>work\<close>: the header lookup throws a
  TypeError although the default header entry is there, the memo lookup resolves with
  \<open>undefined\<close> instead of the default memo entry, and the file-link and task lookups throw
  \<open>Not yet implemented\<close> for every scope, the default one included.
\<close>

theorem template_lookup_no_fallback:
  "getHeaderTemplate defaultOnlyConfig None = Returns ''# {header}''
   \<and> getHeaderTemplate defaultOnlyConfig (Some ''work'') = Throws TypeError
   \<and> getMemoTemplate defaultOnlyConfig (Some ''work'') = Resolved None
   \<and> getFileLinkTemplate (Some ''work'') = Throws ''Not yet implemented''
   \<and> getFileLinkTemplate None = Throws ''Not yet implemented''
   \<and> getTaskTemplate (Some ''work'') = Throws ''Not yet implemented''
   \<and> getTaskTemplate None = Throws ''Not yet implemented''"
  by (simp add: getHeaderTemplate_def getMemoTemplate_def defaultOnlyConfig_def
      scopeOrDefault_def SCOPE_DEFAULT_def getFileLinkTemplate_throws getTaskTemplate_throws)

section \<open>String replacement\<close>

text \<open>
  A replacement text without a dollar sign is inserted as it stands, and what is replaced
  is the first occurrence of the pattern.
\<close>

lemma getSubstitution_plain:
  "CHR ''$'' \<notin> set rep \<Longrightarrow> getSubstitution m b a rep = rep"
  by (induction m b a rep rule: getSubstitution.induct) auto

lemma splitFirst_sound: "splitFirst pat s = Some (b, a) \<Longrightarrow> s = b @ pat @ a"
proof (induction s arbitrary: b)
  case Nil
  then show ?case by (simp split: if_splits)
next
  case (Cons c cs)
  show ?case
  proof (cases "prefix pat (c # cs)")
    case True
    with Cons.prems have "b = []" and "a = drop (length pat) (c # cs)" by simp_all
    moreover from True obtain zs where "c # cs = pat @ zs" by (auto simp: prefix_def)
    ultimately show ?thesis by simp
  next
    case False
    with Cons.prems obtain b' where "splitFirst pat cs = Some (b', a)" and "b = c # b'"
      by (auto split: if_splits)
    with Cons.IH show ?thesis by simp
  qed
qed

lemma js_replace_plain:
  assumes "CHR ''$'' \<notin> set rep" and "splitFirst pat s = Some (b, a)"
  shows "js_replace s pat rep = b @ rep @ a"
  using assms by (simp add: js_replace_def getSubstitution_plain)

lemma js_replace_absent: "splitFirst pat s = None \<Longrightarrow> js_replace s pat rep = s"
  by (simp add: js_replace_def)

lemma js_replace_dollar_example:
  "js_replace ''a {header} b {header}'' ''{header}'' ''X$$Y$&Z'' = ''a X$Y{header}Z b {header}''"
  by (simp add: js_replace_def)

section \<open>Memo insertion\<close>

text \<open>
  C1, as the claim states it: whenever the Input carries a memo, \<open>addMemo\<close> inserts it.
  It does not: an Input with the memo \<open>buy milk\<close> and no flag comes back with the page
  untouched, no write having been made.
\<close>

theorem addMemo_memo_without_flags:
  "hasMemo memoOnly \<and> addMemo baseEnv memoOnly page = (Resolved page, [])"
  by (simp add: addMemo_def hasMemo_def hasFlags_def memoOnly_def)

text \<open>
  C1, amended: if the Input lacks a memo or lacks flags, \<open>addMemo\<close> resolves with the page
  it was given and makes no write. Only when the Input carries both a memo and a flag is
  the writer called, once, at line 2, column 0 of the page, and the promise resolves with
  the document the writer yields; a failed write rejects with \<open>Failed to add memo\<close>.
\<close>

theorem addMemo_guard:
  "(\<not> hasMemo input \<or> \<not> hasFlags input \<longrightarrow> addMemo env input doc = (Resolved doc, []))
   \<and> (hasMemo input \<and> hasFlags input \<longrightarrow>
        snd (addMemo env input doc) = [WriteInputToFile doc (2, 0) input]
        \<and> fst (addMemo env input doc) =
            (case writer_writeInputToFile env doc (2, 0) input of
               Resolved d \<Rightarrow> Resolved d
             | Rejected r \<Rightarrow> Rejected ''Failed to add memo''
             | Pending \<Rightarrow> Pending))"
  by (simp add: addMemo_def thenT_def catchT_def split: promise.splits)

text \<open>
  C1, at a memo without a flag and at a memo with the flag \<open>task\<close>.
\<close>

theorem addMemo_guard_witness:
  "addMemo baseEnv memoOnly page = (Resolved page, [])
   \<and> addMemo baseEnv taskInput page = (Resolved page, [WriteInputToFile page (2, 0) taskInput])"
  using addMemo_guard [where input = memoOnly and env = baseEnv and doc = page]
    addMemo_guard [where input = taskInput and env = baseEnv and doc = page]
  by (simp add: hasMemo_def hasFlags_def memoOnly_def taskInput_def baseEnv_def prod_eq_iff)

section \<open>Synchronization with the notes folder\<close>

text \<open>
  Since the template lookup throws, the loop makes no insertion, and it is left with the
  exception at the first file of the folder that the page does not mention.
\<close>

lemma forEachFound_throws:
  "forEachFound env doc refs found =
     ([], if set found \<subseteq> set refs then None else Some ''Not yet implemented'')"
  by (induction found) (auto simp: getFileLinkTemplate_throws find_None_iff)

text \<open>
  Whatever the template lookup does, it is only consulted for a file that the page does
  not mention yet.
\<close>

lemma forEachFound_all_referenced:
  "set found \<subseteq> set refs \<Longrightarrow> forEachFound env doc refs found = ([], None)"
  by (induction found) (auto simp: find_None_iff)

lemma synchronizeChain_trace: "snd (synchronizeChain env doc) = []"
  by (simp add: synchronizeChain_def thenT_def forEachFound_throws Let_def split: promise.splits)

lemma synchronize_cases:
  "synchronizeReferencedFiles env doc =
     (case fst (synchronizeChain env doc) of
        Rejected r \<Rightarrow>
          [ShowErrorMessage (''Failed to synchronize page with notes folder. Reason: '' @ r)]
      | _ \<Rightarrow> [])"
  by (simp add: synchronizeReferencedFiles_def catchT_def synchronizeChain_trace
      split: promise.splits)

lemma synchronize_no_edit: "filter mutates (synchronizeReferencedFiles env doc) = []"
  by (simp add: synchronize_cases split: promise.splits)

lemma synchronizeChain_rejected_scan:
  assumes "reader_getReferencedFiles env doc = Rejected r
           \<or> reader_getFilesInNotesFolder env doc = Rejected r"
  shows "\<exists>r'. fst (synchronizeChain env doc) = Rejected r'"
  using assms by (auto simp: synchronizeChain_def thenT_def q_all_def split: promise.splits)

lemma synchronizeChain_unreferenced:
  assumes "reader_getReferencedFiles env doc = Resolved refs"
      and "reader_getFilesInNotesFolder env doc = Resolved found"
      and "\<not> set found \<subseteq> set refs"
  shows "fst (synchronizeChain env doc) = Rejected ''Not yet implemented''"
  using assms by (simp add: synchronizeChain_def thenT_def q_all_def forEachFound_throws Let_def)

text \<open>
  C3. The claim: for every file of the notes folder that the page does not reference, the
  file-link template is obtained, rendered and appended to the page. The code, for a
  folder that holds \<open>shopping.md\<close> and a page that references nothing:
  \<open>getFileLinkTemplate\<close> throws \<open>Not yet implemented\<close>, nothing is inserted, and the only
  effect is the error message.
\<close>

theorem unreferenced_note_is_not_linked:
  "reader_getReferencedFiles oneNoteEnv page = Resolved []
   \<and> reader_getFilesInNotesFolder oneNoteEnv page = Resolved [''shopping.md'']
   \<and> synchronizeReferencedFiles oneNoteEnv page =
       [ShowErrorMessage
          ''Failed to synchronize page with notes folder. Reason: Not yet implemented'']"
  by (simp add: example_defs synchronizeReferencedFiles_def synchronizeChain_def q_all_def
      thenT_def catchT_def getFileLinkTemplate_throws Let_def)

text \<open>
  C5. Synchronization is idempotent: for every state of the page and of its notes folder,
  however the reader answers in a state and whatever a mutating call does to it, the
  second of two runs in a row makes no edit, and leaves the state the first run left.
  The loop consults the template, and so can add a link, only for a file that is not
  referenced yet: when every file of the folder is referenced it adds nothing and fails
  with nothing.
\<close>

theorem synchronize_twice_no_edit:
  "editsOfRun envOf doc (synchronizeOnce envOf perform doc c) = []
   \<and> synchronizeOnce envOf perform doc (synchronizeOnce envOf perform doc c)
       = synchronizeOnce envOf perform doc c
   \<and> (set found \<subseteq> set refs \<longrightarrow> forEachFound env doc refs found = ([], None))"
  by (simp add: editsOfRun_def synchronizeOnce_def synchronize_no_edit
      forEachFound_all_referenced)

text \<open>
  C5, for a folder that holds one note, with a state that counts the edits made; and for
  a page that already references the note.
\<close>

theorem synchronize_twice_no_edit_witness:
  "editsOfRun (\<lambda>c. oneNoteEnv) page
      (synchronizeOnce (\<lambda>c. oneNoteEnv) (\<lambda>e c. Suc c) page (0::nat)) = []
   \<and> forEachFound baseEnv page [''shopping.md''] [''shopping.md''] = ([], None)"
  using synchronize_twice_no_edit [where envOf = "\<lambda>c. oneNoteEnv" and perform = "\<lambda>e c. Suc c"
      and doc = page and c = "0::nat" and found = "[''shopping.md'']"
      and refs = "[''shopping.md'']" and env = baseEnv]
  by simp

section \<open>The page of a day\<close>



lemma getPageForDay_trace:
  "snd (getPageForDay env n) =
     (case fst (loadOrCreate env n) of
        Resolved doc \<Rightarrow> snd (loadOrCreate env n) @ synchronizeReferencedFiles env doc
      | _ \<Rightarrow> snd (loadOrCreate env n))"
  by (simp add: getPageForDay_def Let_def split: promise.splits)

lemma getPageForDay_resolved:
  assumes "fst (loadOrCreate env n) = Resolved doc" and "\<not> isNaN n"
  shows "fst (getPageForDay env n) = Resolved doc"
  using assms by (simp add: getPageForDay_def Let_def settle_def promiseOf_def)

lemma getPageForDay_trace_split:
  "snd (getPageForDay env n) = snd (loadOrCreate env n) @ synchronizationStarted env n"
  by (simp add: getPageForDay_trace synchronizationStarted_def split: promise.splits)



text \<open>
  C8. The claim: when the page file is absent, \<open>getPageForDay\<close> creates it from the page
  template, with \<open>{header}\<close> replaced by the formatted date, and returns the created
  document. The code, for a page that is not there yet: the create branch calls
  \<open>this.config.getPageTemplate()\<close>, which the class \<open>Configuration\<close> does not define;
  the TypeError rejects the chain, the promise is rejected with \<open>Failed to open file\<close>,
  and no file is created.
\<close>

theorem absent_page_is_not_created:
  "vsExt_loadTextDocument absentEnv pagePath = LoadFailed NotFound pagePath
   \<and> getPageForDay absentEnv (Num 0) =
       (Rejected ''Failed to open file'', [LoadTextDocument pagePath])"
  by (simp add: example_defs run_defs createPage_def)

text \<open>
  C10. For the offset \<open>NaN\<close> the promise of \<open>getPageForDay\<close> is rejected with
  \<open>Journal: Not a valid value for offset\<close>, and the guard does not return: the chain
  runs as for any offset, on the invalid date. Its events are all there, those of the
  synchronization included, and when the path resolves the page is loaded.
\<close>

theorem NaN_offset_rejected_chain_still_runs:
  "fst (getPageForDay env NaN) = Rejected ''Journal: Not a valid value for offset''
   \<and> snd (getPageForDay env NaN) =
       (case fst (loadOrCreate env NaN) of
          Resolved doc \<Rightarrow> snd (loadOrCreate env NaN) @ synchronizeReferencedFiles env doc
        | _ \<Rightarrow> snd (loadOrCreate env NaN))
   \<and> (\<forall>path. util_getFileForDate env InvalidDate = Resolved path
         \<longrightarrow> (\<exists>t. snd (getPageForDay env NaN) = LoadTextDocument path # t))"
proof -
  have 1: "fst (getPageForDay env NaN) = Rejected ''Journal: Not a valid value for offset''"
    by (simp add: getPageForDay_def Let_def isNaN_def settle_def promiseOf_def
        split: promise.splits)
  have 2: "\<exists>t. snd (getPageForDay env NaN) = LoadTextDocument path # t"
    if "util_getFileForDate env InvalidDate = Resolved path" for path
  proof -
    have "\<exists>t. snd (loadOrCreate env NaN) = LoadTextDocument path # t"
      using that
      by (simp add: loadOrCreate_def thenT_def catchT_def setDate_def Let_def
          split: promise.splits)
    then show ?thesis by (auto simp: getPageForDay_trace split: promise.splits)
  qed
  have 3: "snd (getPageForDay env NaN) =
       (case fst (loadOrCreate env NaN) of
          Resolved doc \<Rightarrow> snd (loadOrCreate env NaN) @ synchronizeReferencedFiles env doc
        | _ \<Rightarrow> snd (loadOrCreate env NaN))"
    by (rule getPageForDay_trace)
  from 1 2 3 show ?thesis by blast
qed

text \<open>
  C10, for the page of the day that exists: the promise is rejected, and the page has
  been loaded all the same.
\<close>

theorem NaN_offset_rejected_chain_still_runs_witness:
  "getPageForDay baseEnv NaN =
     (Rejected ''Journal: Not a valid value for offset'', [LoadTextDocument pagePath])"
proof -
  have "snd (getPageForDay baseEnv NaN) = [LoadTextDocument pagePath]"
    by (simp add: example_defs run_defs)
  then show ?thesis
    using NaN_offset_rejected_chain_still_runs [of baseEnv] by (simp add: prod_eq_iff)
qed

text \<open>
  C6. A failure inside \<open>synchronizeReferencedFiles\<close> is never fatal to the caller: once
  the page is loaded and the offset is a number, \<open>getPageForDay\<close> resolves with that
  document whatever the synchronization does, and the synchronization edits nothing.
  When its chain fails, all that is left of the failure is one error message. The chain
  fails when the scan of the page or the listing of the folder is rejected, and when the
  template lookup throws, which it does as soon as a file of the folder is not
  referenced; the insertion is behind that lookup and is not reached.
\<close>

theorem synchronize_failure_not_fatal:
  assumes "fst (loadOrCreate env n) = Resolved doc" and "\<not> isNaN n"
  shows "fst (getPageForDay env n) = Resolved doc
         \<and> snd (getPageForDay env n) = snd (loadOrCreate env n) @ synchronizeReferencedFiles env doc
         \<and> filter mutates (synchronizeReferencedFiles env doc) = []
         \<and> (\<forall>r. fst (synchronizeChain env doc) = Rejected r
              \<longrightarrow> synchronizeReferencedFiles env doc =
                    [ShowErrorMessage
                       (''Failed to synchronize page with notes folder. Reason: '' @ r)])
         \<and> (\<forall>r. reader_getReferencedFiles env doc = Rejected r
                  \<or> reader_getFilesInNotesFolder env doc = Rejected r
              \<longrightarrow> (\<exists>r'. fst (synchronizeChain env doc) = Rejected r'))
         \<and> (\<forall>refs found. reader_getReferencedFiles env doc = Resolved refs
                  \<and> reader_getFilesInNotesFolder env doc = Resolved found
                  \<and> \<not> set found \<subseteq> set refs
              \<longrightarrow> fst (synchronizeChain env doc) = Rejected ''Not yet implemented'')"
proof -
  have 1: "fst (getPageForDay env n) = Resolved doc"
    using assms by (rule getPageForDay_resolved)
  have 2: "snd (getPageForDay env n) = snd (loadOrCreate env n) @ synchronizeReferencedFiles env doc"
    using assms(1) by (simp add: getPageForDay_trace)
  have 3: "filter mutates (synchronizeReferencedFiles env doc) = []"
    by (rule synchronize_no_edit)
  have 4: "synchronizeReferencedFiles env doc =
      [ShowErrorMessage (''Failed to synchronize page with notes folder. Reason: '' @ r)]"
    if "fst (synchronizeChain env doc) = Rejected r" for r
    using that by (simp add: synchronize_cases)
  from 1 2 3 4 synchronizeChain_rejected_scan synchronizeChain_unreferenced
  show ?thesis by blast
qed

text \<open>
  C6, for a notes folder that cannot be listed, and for one that holds a note the page
  does not mention.
\<close>

theorem synchronize_failure_not_fatal_witness:
  "getPageForDay noListingEnv (Num 0) =
     (Resolved page,
      [LoadTextDocument pagePath,
       ShowErrorMessage ''Failed to synchronize page with notes folder. Reason: EACCES''])
   \<and> getPageForDay oneNoteEnv (Num 0) =
     (Resolved page,
      [LoadTextDocument pagePath,
       ShowErrorMessage
         ''Failed to synchronize page with notes folder. Reason: Not yet implemented''])"
proof -
  have a: "loadOrCreate noListingEnv (Num 0) = (Resolved page, [LoadTextDocument pagePath])"
    by (simp add: example_defs loadOrCreate_def thenT_def catchT_def loadPromise_def Let_def)
  have b: "loadOrCreate oneNoteEnv (Num 0) = (Resolved page, [LoadTextDocument pagePath])"
    by (simp add: example_defs loadOrCreate_def thenT_def catchT_def loadPromise_def Let_def)
  have c: "fst (synchronizeChain noListingEnv page) = Rejected ''EACCES''"
    by (simp add: example_defs synchronizeChain_def thenT_def q_all_def)
  have d: "reader_getReferencedFiles oneNoteEnv page = Resolved []
      \<and> reader_getFilesInNotesFolder oneNoteEnv page = Resolved [''shopping.md'']"
    by (simp add: example_defs)
  show ?thesis
    using synchronize_failure_not_fatal [where env = noListingEnv and n = "Num 0" and doc = page]
      synchronize_failure_not_fatal [where env = oneNoteEnv and n = "Num 0" and doc = page]
      a b c d
    by (simp add: isNaN_def prod_eq_iff)
qed

section \<open>Cancellation\<close>

text \<open>
  C7. When the user cancels the prompt (the prompt's promise is rejected with \<open>cancel\<close>),
  the pipeline stops there: the prompt is its only event, so no file is created or
  written and no error message is shown, and the promise the pipeline returns is left
  unsettled, neither resolved nor rejected. So it is for \<open>openDayByInput\<close> and for
  \<open>openDayByInputOrSelection\<close>. \<open>createNote\<close> never gets as far as its prompt, which
  nobody can then cancel: it throws at its first call, \<open>getNotesPagesTemplate\<close>, with no
  event at all and no promise returned. The chain it would attach to the promise of the
  template treats a cancelled prompt as the other two pipelines do.
\<close>

theorem cancel_stops_pipelines:
  "(vsExt_getUserInput env ''Enter day or memo (with flags) '' = Rejected ''cancel''
      \<longrightarrow> openDayByInput env = (Pending, [GetUserInput ''Enter day or memo (with flags) '']))
   \<and> (\<forall>items. gatherSelection env = Resolved items
         \<and> vsExt_getUserInputComboSync env ''Enter day or memo (with flags)'' items
             = Rejected ''cancel''
      \<longrightarrow> openDayByInputOrSelection env
            = (Pending, [GetUserInputComboSync ''Enter day or memo (with flags)'' items]))
   \<and> createNote env = Throws TypeError
   \<and> (\<forall>tpl. vsExt_getUserInput env ''Enter name for your notes'' = Rejected ''cancel''
      \<longrightarrow> createNoteChain env (Resolved tpl)
            = (Pending, [GetUserInput ''Enter name for your notes'']))"
  by (simp add: openDayByInput_def openDayByInputOrSelection_def createNote_def
      createNoteChain_def getNotesPagesTemplate_def thenT_def catchT_def Let_def)

text \<open>
  C7, for the user who cancels every prompt.
\<close>

theorem cancel_stops_pipelines_witness:
  "openDayByInput baseEnv = (Pending, [GetUserInput ''Enter day or memo (with flags) ''])
   \<and> openDayByInputOrSelection baseEnv
       = (Pending, [GetUserInputComboSync ''Enter day or memo (with flags)'' []])
   \<and> createNote baseEnv = Throws TypeError
   \<and> createNoteChain baseEnv (Resolved ''# {content}'')
       = (Pending, [GetUserInput ''Enter name for your notes''])
   \<and> filter mutates (snd (openDayByInput baseEnv)) = []
   \<and> filter isErrorMessage (snd (openDayByInput baseEnv)) = []"
  using cancel_stops_pipelines [of baseEnv]
  by (simp add: baseEnv_def gatherSelection_def)

section \<open>Tokenizing\<close>

text \<open>
  C9. Tokenizing the empty string never fails, whatever the DateParser and the sigil: it
  yields the Input with offset 0, no memo and no flags.
\<close>

theorem tokenize_empty:
  "tokenize parse sigil [] = Inr \<lparr>rawText = [], offset = Some 0, memo = None, flags = []\<rparr>
   \<and> \<not> hasMemo \<lparr>rawText = [], offset = Some 0, memo = None, flags = []\<rparr>
   \<and> \<not> hasFlags \<lparr>rawText = [], offset = Some 0, memo = None, flags = []\<rparr>"
  by (simp add: tokenize_def hasMemo_def hasFlags_def)

text \<open>The spec's own example of a full input.\<close>

lemma tokenize_example:
  "tokenize (\<lambda>t. if t = ''+2'' then Inr 2 else Inl (ParseError t)) (CHR ''#'')
     ''+2 buy milk #task''
   = Inr \<lparr>rawText = ''+2 buy milk #task'', offset = Some 2, memo = Some ''buy milk'',
          flags = [''task'']\<rparr>"
  by (simp add: tokenize_def isSpace_def trim_def Let_def)

end
